theory Spec2Isabelle
  imports Main "HOL-Library.Word"
begin

section \<open>Package jsonrpc: decoding hooks of the daemon response types\<close>

subsection \<open>Dynamic values and destination types\<close>

text \<open>
  A Go \<open>interface{}\<close> holds a value of some dynamic type. The values that reach the
  decoding hook come from a JSON decoder (strings, \<open>json.Number\<close>, booleans, nil, lists
  and objects); the values it returns add \<open>uint64\<close>, \<open>[]byte\<close> and the protobuf
  enumerations. A \<open>json.Number\<close> is a Go string holding the literal's text.
\<close>

datatype enum_type =
    Metadata_Version | Metadata_Language
  | Stream_Version
  | Claim_Version | Claim_ClaimType
  | Fee_Version | Fee_Currency
  | Source_Version | Source_SourceTypes
  | KeyType
  | Signature_Version
  | Certificate_Version

datatype NumErrKind = ErrSyntax | ErrRange

datatype go_error =
    ExpectedAString
  | InvalidEnumKey
  | MustBeUnsignedInt
  | NumError string string NumErrKind

datatype go_value =
    VNil
  | VString string
  | VNumber string
  | VBool bool
  | VList "go_value list"
  | VObject "(string \<times> go_value) list"
  | VUint64 "64 word"
  | VBytes "8 word list"
  | VEnum enum_type "32 word"

datatype rtype = TUint64 | TBytes | TEnum enum_type | TOther string

subsection \<open>getEnumVal\<close>

text \<open>
  \<open>getEnumVal(enum map[string]int32, data interface{}) (int32, error)\<close>: the type
  assertion \<open>data.(string)\<close>, then the map lookup with the comma-ok form. Both failures
  return the zero value together with the error.
\<close>

definition getEnumVal :: "(string \<rightharpoonup> 32 word) \<Rightarrow> go_value \<Rightarrow> 32 word \<times> go_error option" where
  "getEnumVal enum data =
     (case data of
        VString s \<Rightarrow>
          (case enum s of
             None \<Rightarrow> (0, Some InvalidEnumKey)
           | Some val \<Rightarrow> (val, None))
      | _ \<Rightarrow> (0, Some ExpectedAString))"

subsection \<open>strconv.ParseUint and strconv.ParseInt at base 10 and 64 bits\<close>

text \<open>
  \<open>json.Number.Int64\<close> is \<open>strconv.ParseInt(string(n), 10, 64)\<close> of the Go standard
  library. The accumulator of \<open>ParseUint\<close> is a \<open>uint64\<close>: it is modelled as a natural
  number with the wrap-around of \<open>n *= 10\<close> and \<open>n + d\<close> written out, so that the
  overflow tests of the library (\<open>n >= cutoff\<close>, \<open>n1 < n || n1 > maxVal\<close>) are the
  ones that decide. At base 10 every byte that is not a decimal digit is a syntax
  error (a letter is a digit value of at least 10, which the library rejects as well).
\<close>

definition maxUint64 :: nat where
  "maxUint64 = 2 ^ 64 - 1"

definition isDigit :: "char \<Rightarrow> bool" where
  "isDigit c \<longleftrightarrow> (48::nat) \<le> of_char c \<and> (of_char c :: nat) \<le> 57"

fun ParseUint_loop :: "nat \<Rightarrow> string \<Rightarrow> nat \<times> NumErrKind option" where
  "ParseUint_loop n [] = (n, None)"
| "ParseUint_loop n (c # cs) =
     (if \<not> isDigit c then (0, Some ErrSyntax)
      else
        let d = of_char c - 48 in
        if n \<ge> maxUint64 div 10 + 1 then (maxUint64, Some ErrRange)
        else
          let n' = (n * 10) mod 2 ^ 64;
              n1 = (n' + d) mod 2 ^ 64
          in if n1 < n' \<or> n1 > maxUint64 then (maxUint64, Some ErrRange)
             else ParseUint_loop n1 cs)"

definition ParseUint :: "string \<Rightarrow> nat \<times> NumErrKind option" where
  "ParseUint s = (if s = [] then (0, Some ErrSyntax) else ParseUint_loop 0 s)"

text \<open>
  \<open>ParseInt\<close> picks off a leading sign, converts the rest unsigned and checks the
  range against \<open>cutoff = 1 << 63\<close>. A range error of \<open>ParseUint\<close> is not returned at
  once: its value \<open>maxVal\<close> then fails the cutoff test. The result \<open>int64\<close> is modelled
  as an \<open>int\<close>; on the success path it lies between \<open>-2^63\<close> and \<open>2^63 - 1\<close>.
\<close>

definition ParseInt :: "string \<Rightarrow> int \<times> go_error option" where
  "ParseInt s0 =
     (case s0 of
        [] \<Rightarrow> (0, Some (NumError ''ParseInt'' s0 ErrSyntax))
      | c # r \<Rightarrow>
          let neg = (c = CHR ''-'');
              s = (if c = CHR ''+'' \<or> c = CHR ''-'' then r else s0);
              (un, err) = ParseUint s;
              cutoff = 2 ^ 63
          in if err \<noteq> None \<and> err \<noteq> Some ErrRange
               then (0, Some (NumError ''ParseInt'' s0 ErrSyntax))
             else if \<not> neg \<and> un \<ge> cutoff
               then (int cutoff - 1, Some (NumError ''ParseInt'' s0 ErrRange))
             else if neg \<and> un > cutoff
               then (- int cutoff, Some (NumError ''ParseInt'' s0 ErrRange))
             else (if neg then - int un else int un, None))"

definition Int64 :: "string \<Rightarrow> int \<times> go_error option" where
  "Int64 n = ParseInt n"

subsection \<open>fixDecodeProto\<close>

text \<open>
  \<open>fixDecodeProto(src, dest reflect.Type, data interface{}) (interface{}, error)\<close>
  switches on the destination type. The twelve enumeration cases of the source differ
  only in the enumeration; the value maps of the generated protobuf package (such as
  \<open>lbryschema.Fee_Currency_value\<close>) are a parameter. A case whose inner type assertion
  fails falls out of the switch to the final \<open>return data, nil\<close>.
\<close>

definition fixDecodeProto ::
  "(enum_type \<Rightarrow> string \<rightharpoonup> 32 word) \<Rightarrow> rtype \<Rightarrow> rtype \<Rightarrow> go_value \<Rightarrow> go_value \<times> go_error option" where
  "fixDecodeProto enum_value src dest data =
     (case dest of
        TUint64 \<Rightarrow>
          (case data of
             VNumber n \<Rightarrow>
               (case Int64 n of
                  (val, Some err) \<Rightarrow> (VNil, Some err)
                | (val, None) \<Rightarrow>
                    if val < 0 then (VNil, Some MustBeUnsignedInt)
                    else (VUint64 (word_of_int val), None))
           | _ \<Rightarrow> (data, None))
      | TBytes \<Rightarrow>
          (case data of
             VString s \<Rightarrow> (VBytes (map of_char s), None)
           | _ \<Rightarrow> (data, None))
      | TEnum t \<Rightarrow>
          (case getEnumVal (enum_value t) data of (val, err) \<Rightarrow> (VEnum t val, err))
      | TOther _ \<Rightarrow> (data, None))"

subsection \<open>Integer literals, as the specification speaks of them\<close>

text \<open>
  The integer a \<open>json.Number\<close> denotes when its text is an optionally signed, non-empty
  run of decimal digits; \<open>None\<close> for any other text. This is the reference against which
  the conversion is compared; it is not taken from the library code.
\<close>

definition decimal_value :: "string \<Rightarrow> nat" where
  "decimal_value ds = foldl (\<lambda>n c. 10 * n + (of_char c - 48)) 0 ds"

definition int_literal :: "string \<Rightarrow> int option" where
  "int_literal s =
     (let neg = (s \<noteq> [] \<and> hd s = CHR ''-'');
          ds = (if s \<noteq> [] \<and> (hd s = CHR ''-'' \<or> hd s = CHR ''+'') then tl s else s)
      in if ds \<noteq> [] \<and> list_all isDigit ds
         then Some (if neg then - int (decimal_value ds) else int (decimal_value ds))
         else None)"

section \<open>Package dht: the facade of the DHT node\<close>

subsection \<open>encoding/hex\<close>

text \<open>
  \<open>hex.DecodeString\<close> and \<open>hex.EncodeToString\<close> of the Go standard library. A Go
  string is a sequence of bytes, here a \<open>char list\<close>. \<open>fromHexChar\<close> is the library's
  reverse table: the digits, \<open>a\<close> to \<open>f\<close> and \<open>A\<close> to \<open>F\<close>; every other byte is invalid.
\<close>

datatype hex_error = InvalidByteError char | ErrLength

definition fromHexChar :: "char \<Rightarrow> nat option" where
  "fromHexChar c =
     (let n = (of_char c :: nat) in
      if 48 \<le> n \<and> n \<le> 57 then Some (n - 48)
      else if 97 \<le> n \<and> n \<le> 102 then Some (n - 97 + 10)
      else if 65 \<le> n \<and> n \<le> 70 then Some (n - 65 + 10)
      else None)"

fun DecodeString :: "string \<Rightarrow> hex_error + string" where
  "DecodeString (p # q # rest) =
     (case fromHexChar p of
        None \<Rightarrow> Inl (InvalidByteError p)
      | Some a \<Rightarrow>
          (case fromHexChar q of
             None \<Rightarrow> Inl (InvalidByteError q)
           | Some b \<Rightarrow>
               (case DecodeString rest of
                  Inl e \<Rightarrow> Inl e
                | Inr bs \<Rightarrow> Inr (char_of (a * 16 + b) # bs))))"
| "DecodeString [c] =
     (if fromHexChar c = None then Inl (InvalidByteError c) else Inl ErrLength)"
| "DecodeString [] = Inr []"

definition hextable :: string where
  "hextable = ''0123456789abcdef''"

fun EncodeToString :: "string \<Rightarrow> string" where
  "EncodeToString [] = []"
| "EncodeToString (v # vs) =
     hextable ! ((of_char v :: nat) div 16) # hextable ! ((of_char v :: nat) mod 16)
       # EncodeToString vs"

subsection \<open>Configuration\<close>

text \<open>A \<open>time.Duration\<close> counts nanoseconds.\<close>

definition Second :: int where
  "Second = 1000000000"

definition Minute :: int where
  "Minute = 60 * Second"

type_synonym callback = "string \<Rightarrow> string \<Rightarrow> int \<Rightarrow> unit"

record Config =
  K :: int
  Network :: string
  Address :: string
  PrimeNodes :: "string list"
  KBucketExpiredAfter :: int
  NodeExpriedAfter :: int
  CheckKBucketPeriod :: int
  TokenExpiredAfter :: int
  MaxTransactionCursor :: "64 word"
  MaxNodes :: int
  OnGetPeers :: "callback option"
  OnAnnouncePeer :: "callback option"
  Try :: int
  PacketJobLimit :: int
  PacketWorkerLimit :: int
  RefreshNodeNum :: int

definition MaxUint32 :: "64 word" where
  "MaxUint32 = 4294967295"

definition NewStandardConfig :: Config where
  "NewStandardConfig =
     \<lparr> K = 8,
       Network = ''udp4'',
       Address = '':4444'',
       PrimeNodes = [''lbrynet1.lbry.io:4444'', ''lbrynet2.lbry.io:4444'',
                     ''lbrynet3.lbry.io:4444''],
       KBucketExpiredAfter = Minute * 15,
       NodeExpriedAfter = Minute * 15,
       CheckKBucketPeriod = Second * 30,
       TokenExpiredAfter = Minute * 10,
       MaxTransactionCursor = MaxUint32,
       MaxNodes = 5000,
       OnGetPeers = None,
       OnAnnouncePeer = None,
       Try = 2,
       PacketJobLimit = 1024,
       PacketWorkerLimit = 256,
       RefreshNodeNum = 8 \<rparr>"

subsection \<open>Nodes, peers, packets and channels\<close>

text \<open>
  Modelled from the spec: the declarations of the types \<open>node\<close>, \<open>Peer\<close> and \<open>packet\<close>
  are in other files of the package. The spec gives a node an identifier and a
  transport address, where "a bootstrap-only reference may exist with no ID yet"; a
  packet is the "raw received datagram \<open>{bytes, sourceAddress}\<close>"; a peer is an
  endpoint. Only the fields this file reads or writes are kept: \<open>join\<close> builds
  \<open>&node{addr: raddr}\<close> and reads \<open>dht.node.id.RawString()\<close>, so the identifier is
  optional and kept as its raw string; \<open>listen\<close> builds \<open>packet{buff[:n], raddr}\<close>,
  whose address is a pointer and may be nil.

  A \<open>[]byte\<close> is a slice: it names an array and a length and holds no bytes of its
  own. The arrays live in a store, from addresses to their contents, and the bytes of
  a slice are read through the store at the moment they are asked for. Two slices of
  one array see each other's writes.
\<close>

type_synonym store = "nat \<Rightarrow> 8 word list"

record slice =
  slice_array :: nat
  slice_len :: nat

definition slice_bytes :: "store \<Rightarrow> slice \<Rightarrow> 8 word list" where
  "slice_bytes h sl = take (slice_len sl) (h (slice_array sl))"

datatype UDPAddr = UDPAddr (IP: string) (Port: nat)

record node =
  node_id :: "string option"
  node_addr :: UDPAddr

datatype Peer = Peer (peer_IP: string) (peer_Port: nat)

record packet =
  pkt_data :: slice
  pkt_raddr :: "UDPAddr option"

text \<open>
  A buffered channel: its capacity and the values waiting in it.

  \<open>make(chan T, size)\<close> is \<open>makechan\<close> of the Go runtime, which panics with
  "makechan: size out of range" when the size is negative, when the memory for the
  elements, \<open>elem.size * uintptr(size)\<close>, overflows a machine word, or when it exceeds
  \<open>maxAlloc - hchanSize\<close>. The width of \<open>int\<close> and \<open>uintptr\<close>, the two constants of the
  runtime and the size of a \<open>packet\<close> depend on the platform and are parameters. A Go
  \<open>int\<close> is modelled as an \<open>int\<close>; a size that no \<open>int\<close> of the platform holds is out
  of range as well (the runtime's \<open>makechan64\<close> makes that test for wider sizes).
\<close>

record runtime =
  intSize :: nat
  maxAlloc :: nat
  hchanSize :: nat
  sizeof_packet :: nat

record 'a chan =
  cap :: nat
  buf :: "'a list"

datatype dht_error =
    ErrNotReady
  | ErrHex hex_error
  | PanicNewNode string
  | PanicMakeChan
  | PanicNilPointer

definition make_chan :: "runtime \<Rightarrow> nat \<Rightarrow> int \<Rightarrow> dht_error + 'a chan" where
  "make_chan rt elemSize sz =
     (if sz < - (2 ^ (intSize rt - 1)) \<or> 2 ^ (intSize rt - 1) \<le> sz then Inl PanicMakeChan
      else
        let mem = elemSize * nat sz;
            overflow = (2 ^ intSize rt \<le> mem)
        in if overflow \<or> mem > maxAlloc rt - hchanSize rt \<or> sz < 0 then Inl PanicMakeChan
           else Inr \<lparr> cap = nat sz, buf = [] \<rparr>)"

text \<open>
  The sizes the runtime accepts for a channel whose elements take \<open>elemSize\<close> bytes,
  said outright: a non-negative \<open>int\<close> whose elements fit the word and the allocator.
\<close>

definition fits :: "runtime \<Rightarrow> nat \<Rightarrow> int \<Rightarrow> bool" where
  "fits rt elemSize sz \<longleftrightarrow>
     0 \<le> sz \<and> sz < 2 ^ (intSize rt - 1)
     \<and> elemSize * nat sz < 2 ^ intSize rt
     \<and> elemSize * nat sz \<le> maxAlloc rt - hchanSize rt"

subsection \<open>The DHT and its construction\<close>

text \<open>
  The fields of \<open>DHT\<close> that \<open>New\<close> sets. The connection, the routing table and the
  transaction, peers and token managers are installed by \<open>init\<close> and live in other
  files: what this file asks of them is an answer of the environment below.
\<close>

record DHT =
  Config :: Config
  node :: node
  Ready :: bool
  packets :: "packet chan"
  workerTokens :: "unit chan"

text \<open>
  \<open>New\<close>: a nil configuration is replaced by the standard one. \<open>newNode\<close> (not at hand)
  and the random identifier \<open>randomString(nodeIDLength)\<close> are parameters; an error of
  \<open>newNode\<close> is a panic. The elements of \<open>workerTokens\<close> are of type \<open>struct{}\<close> and
  take no memory.
\<close>

definition New ::
  "runtime \<Rightarrow> (string \<Rightarrow> string \<Rightarrow> string \<Rightarrow> string + node) \<Rightarrow> string \<Rightarrow> Config option
     \<Rightarrow> dht_error + DHT" where
  "New rt newNode randomID config0 =
     (let config = (case config0 of None \<Rightarrow> NewStandardConfig | Some c \<Rightarrow> c) in
      case newNode randomID (Network config) (Address config) of
        Inl err \<Rightarrow> Inl (PanicNewNode err)
      | Inr n \<Rightarrow>
          (case make_chan rt (sizeof_packet rt) (PacketJobLimit config) of
             Inl e \<Rightarrow> Inl e
           | Inr ps \<Rightarrow>
               (case make_chan rt 0 (PacketWorkerLimit config) of
                  Inl e \<Rightarrow> Inl e
                | Inr ws \<Rightarrow>
                    Inr \<lparr> Config = config, node = n, Ready = False,
                          packets = ps, workerTokens = ws \<rparr>)))"

subsection \<open>The environment and the calls made into it\<close>

text \<open>
  What the facade calls but does not define is the environment: the resolver of the
  operating system, the peers manager and the routing table. The peers manager is
  shared with the packet handlers, which store peers while \<open>FindNode\<close> waits, so its
  answer depends on when it is asked: \<open>GetPeers env i\<close> is its answer at the \<open>i\<close>-th
  poll of a lookup, and \<open>GetPeers env 0\<close> its answer at the first look before any poll.
  Every call into the environment, every wait and every send is recorded, in order,
  as an event; \<open>LogInfo\<close> is a line written by \<open>log.Info\<close>, \<open>GoFresh\<close> the start of
  the goroutine \<open>dht.routingTable.Fresh()\<close>.
\<close>

record env =
  ResolveUDPAddr :: "string \<Rightarrow> string \<Rightarrow> string + UDPAddr"
  GetPeers :: "nat \<Rightarrow> string \<Rightarrow> int \<Rightarrow> Peer list"
  GetNeighbors :: "string \<Rightarrow> int \<Rightarrow> node list"

datatype event =
    LogInfo string
  | CallResolveUDPAddr string string
  | CallFindNode node string
  | CallDecodeString string
  | CallGetPeers string int
  | CallGetNeighbors string int
  | RecvTick
  | CallReadFromUDP
  | SendPacket packet
  | CallHandle packet
  | GoFresh

subsection \<open>join\<close>

text \<open>
  The loop over \<open>dht.PrimeNodes\<close>. An address that does not resolve is skipped by
  \<open>continue\<close>. For one that resolves, \<open>dht.node.id.RawString()\<close> is read: a local node
  without identifier would be a nil dereference there.
\<close>

fun join_loop :: "env \<Rightarrow> DHT \<Rightarrow> string list \<Rightarrow> dht_error + event list" where
  "join_loop env dht [] = Inr []"
| "join_loop env dht (a # as) =
     (case ResolveUDPAddr env (Network (Config dht)) a of
        Inl err \<Rightarrow>
          (case join_loop env dht as of
             Inl e \<Rightarrow> Inl e
           | Inr evs \<Rightarrow> Inr (CallResolveUDPAddr (Network (Config dht)) a # evs))
      | Inr ra \<Rightarrow>
          (case node_id (node dht) of
             None \<Rightarrow> Inl PanicNilPointer
           | Some own \<Rightarrow>
               (case join_loop env dht as of
                  Inl e \<Rightarrow> Inl e
                | Inr evs \<Rightarrow>
                    Inr (CallResolveUDPAddr (Network (Config dht)) a
                         # CallFindNode \<lparr> node_id = None, node_addr = ra \<rparr> own
                         # evs))))"

definition join :: "env \<Rightarrow> DHT \<Rightarrow> dht_error + event list" where
  "join env dht = join_loop env dht (PrimeNodes (Config dht))"

subsection \<open>listen\<close>

text \<open>
  The reading goroutine: one buffer of 8192 bytes, made once at the address \<open>a\<close> of
  the store, and an endless loop. Each turn reads one datagram into that buffer,
  over what the turn before left there; on an error it goes on with the next turn,
  otherwise it sends the packet \<open>packet{buff[:n], raddr}\<close> on the packet channel (the
  send waits while the channel is full). The packet holds the slice \<open>buff[:n]\<close>, that
  is the buffer's address and the length \<open>n\<close>, not a copy of the bytes. What the
  socket delivers is the input: one \<open>udp_read\<close> per turn. A datagram longer than the
  buffer is cut to the buffer's length. The loop has no exit, so a run is given by the
  reads it has been handed so far; it returns the store it has reached and its events.
\<close>

datatype udp_read = ReadError string | Datagram "8 word list" UDPAddr

definition ReadFromUDP :: "8 word list \<Rightarrow> udp_read \<Rightarrow> 8 word list \<times> nat \<times> UDPAddr option \<times> string option" where
  "ReadFromUDP buff r =
     (case r of
        ReadError err \<Rightarrow> (buff, 0, None, Some err)
      | Datagram bytes sender \<Rightarrow>
          (let n = min (length bytes) (length buff)
           in (take n bytes @ drop n buff, n, Some sender, None)))"

fun listen_loop :: "nat \<Rightarrow> store \<Rightarrow> udp_read list \<Rightarrow> store \<times> event list" where
  "listen_loop a h [] = (h, [])"
| "listen_loop a h (r # rs) =
     (case ReadFromUDP (h a) r of
        (buff', n, sender, Some err) \<Rightarrow>
          (case listen_loop a (h(a := buff')) rs of
             (h', evs) \<Rightarrow> (h', CallReadFromUDP # evs))
      | (buff', n, sender, None) \<Rightarrow>
          (case listen_loop a (h(a := buff')) rs of
             (h', evs) \<Rightarrow>
               (h', CallReadFromUDP
                    # SendPacket \<lparr> pkt_data = \<lparr> slice_array = a, slice_len = n \<rparr>,
                                   pkt_raddr = sender \<rparr>
                    # evs)))"

definition listen :: "nat \<Rightarrow> store \<Rightarrow> udp_read list \<Rightarrow> store \<times> event list" where
  "listen a h rs = listen_loop a (h(a := replicate 8192 0)) rs"

subsection \<open>FindNode\<close>

text \<open>
  The polling loop of the goroutine: \<open>i\<close> counts the ticks received from the
  one-second ticker; each tick is followed by one look into the peers manager, and the
  loop is left when peers were found or \<open>i\<close> has reached 30.
\<close>

function FindNode_poll :: "env \<Rightarrow> string \<Rightarrow> int \<Rightarrow> nat \<Rightarrow> Peer list \<times> event list" where
  "FindNode_poll env key k i =
     (if GetPeers env (i + 1) key k \<noteq> [] \<or> i + 1 \<ge> 30
      then (GetPeers env (i + 1) key k, [RecvTick, CallGetPeers key k])
      else (case FindNode_poll env key k (i + 1) of
              (peers, evs) \<Rightarrow> (peers, RecvTick # CallGetPeers key k # evs)))"
  by pat_completeness auto
termination
  by (relation "measure (\<lambda>(env, key, k, i). 30 - i)") auto

declare FindNode_poll.simps [simp del]

text \<open>
  \<open>FindNode(key string) ([]*Peer, error)\<close>. The constant \<open>nodeIDLength\<close> is declared in
  another file and is a parameter. The caller waits on the channel \<open>ch\<close> until the
  goroutine has finished, so the goroutine's calls are in the caller's trace.
\<close>

definition FindNode ::
  "nat \<Rightarrow> env \<Rightarrow> DHT \<Rightarrow> string \<Rightarrow> (Peer list \<times> dht_error option) \<times> event list" where
  "FindNode nodeIDLength env dht key0 =
     (if \<not> Ready dht then (([], Some ErrNotReady), [])
      else
        case (if length key0 = nodeIDLength * 2
              then (case DecodeString key0 of
                      Inl err \<Rightarrow> Inl err
                    | Inr bytes \<Rightarrow> Inr (bytes, [CallDecodeString key0]))
              else Inr (key0, []))
        of
          Inl err \<Rightarrow> (([], Some (ErrHex err)), [CallDecodeString key0])
        | Inr (key, evs0) \<Rightarrow>
            (let peers = GetPeers env 0 key (K (Config dht)) in
             if peers \<noteq> [] then ((peers, None), evs0 @ [CallGetPeers key (K (Config dht))])
             else
               let neighbors = GetNeighbors env key (K (Config dht));
                   (peers', evs) = FindNode_poll env key (K (Config dht)) 0
               in ((peers', None),
                   evs0 @ [CallGetPeers key (K (Config dht)),
                           CallGetNeighbors key (K (Config dht))]
                     @ map (\<lambda>no. CallFindNode no key) neighbors @ evs)))"

subsection \<open>One turn of the loop of Run\<close>

text \<open>
  The \<open>select\<close> of \<open>Run\<close> takes either a packet from the channel or a tick of the
  maintenance timer. \<open>rtLen\<close> is what \<open>dht.routingTable.Len()\<close> answers and \<open>tmLen\<close>
  what \<open>dht.transactionManager.len()\<close> answers at that moment.
\<close>

datatype select_case = RecvPacket packet | TickFired

definition Run_step :: "env \<Rightarrow> DHT \<Rightarrow> int \<Rightarrow> int \<Rightarrow> select_case \<Rightarrow> dht_error + event list" where
  "Run_step env dht rtLen tmLen sel =
     (case sel of
        RecvPacket pkt \<Rightarrow> Inr [CallHandle pkt]
      | TickFired \<Rightarrow>
          if rtLen = 0 then join env dht
          else if tmLen = 0 then Inr [GoFresh]
          else Inr [])"

subsection \<open>A node and an environment to run the definitions on\<close>

text \<open>
  A node as \<open>New\<close> builds it from the standard configuration, with the readiness flag
  given; a runtime with the values of a 64-bit build (a word of 64 bits, \<open>2^48\<close> bytes
  to allocate, a slice of three words and a pointer in a packet); a store with no
  array in it; and an environment whose resolver knows the first prime node only and
  whose peers manager holds one peer for every key from time \<open>t\<close> on.
\<close>

definition example_dht :: "bool \<Rightarrow> DHT" where
  "example_dht r =
     \<lparr> Config = NewStandardConfig,
       node = \<lparr> node_id = Some ''local-node-id-20byte'', node_addr = UDPAddr ''0.0.0.0'' 4444 \<rparr>,
       Ready = r,
       packets = \<lparr> cap = 1024, buf = [] \<rparr>,
       workerTokens = \<lparr> cap = 256, buf = [] \<rparr> \<rparr>"

definition example_runtime :: runtime where
  "example_runtime = \<lparr> intSize = 64, maxAlloc = 2 ^ 48, hchanSize = 96, sizeof_packet = 32 \<rparr>"

definition example_store :: store where
  "example_store = (\<lambda>a. [])"

definition example_env :: "nat \<Rightarrow> env" where
  "example_env t =
     \<lparr> ResolveUDPAddr = (\<lambda>network a.
         if a = ''lbrynet1.lbry.io:4444'' then Inr (UDPAddr ''10.0.0.1'' 4444)
         else Inl ''no such host''),
       GetPeers = (\<lambda>i key k. if t \<le> i then [Peer ''10.0.0.9'' 3333] else []),
       GetNeighbors = (\<lambda>key k. [\<lparr> node_id = Some ''neighbour'', node_addr = UDPAddr ''10.0.0.2'' 4444 \<rparr>]) \<rparr>"

section \<open>Properties of package jsonrpc\<close>

text \<open>
  C9. For every enum map and every input datum, getEnumVal returns an error exactly when
  the datum is not a string or the string is not a key of the map, and otherwise returns
  the map's value for that string with a nil error.
\<close>

theorem getEnumVal_error_iff:
  "(snd (getEnumVal enum data) \<noteq> None
      \<longleftrightarrow> (\<forall>s. data \<noteq> VString s) \<or> (\<exists>s. data = VString s \<and> s \<notin> dom enum))
   \<and> (\<forall>s val. data = VString s \<and> enum s = Some val
          \<longrightarrow> getEnumVal enum data = (val, None))"
  by (cases data) (auto simp: getEnumVal_def split: option.splits)

theorem getEnumVal_error_iff_witness:
  "getEnumVal [''USD'' \<mapsto> 3] (VString ''USD'') = (3, None)
   \<and> snd (getEnumVal [''USD'' \<mapsto> 3] (VString ''EUR'')) \<noteq> None
   \<and> snd (getEnumVal [''USD'' \<mapsto> 3] (VNumber ''3'')) \<noteq> None"
  using getEnumVal_error_iff [of "[''USD'' \<mapsto> 3]" "VString ''USD''"]
        getEnumVal_error_iff [of "[''USD'' \<mapsto> 3]" "VString ''EUR''"]
        getEnumVal_error_iff [of "[''USD'' \<mapsto> 3]" "VNumber ''3''"]
  by simp

subsection \<open>The conversion against integer literals\<close>

lemma decimal_fold_mono: "m \<le> foldl (\<lambda>n c. 10 * n + (of_char c - 48)) (m::nat) ds"
proof (induction ds arbitrary: m)
  case Nil show ?case by simp
next
  case (Cons c cs)
  have "m \<le> 10 * m + (of_char c - 48)" by simp
  also have "\<dots> \<le> foldl (\<lambda>n c. 10 * n + (of_char c - 48)) (10 * m + (of_char c - 48)) cs"
    by (rule Cons.IH)
  finally show ?case by simp
qed

lemma ParseUint_loop_digits:
  "list_all isDigit ds \<Longrightarrow> n < 2 ^ 64 \<Longrightarrow>
   ParseUint_loop n ds =
     (if foldl (\<lambda>n c. 10 * n + (of_char c - 48)) n ds < 2 ^ 64
      then (foldl (\<lambda>n c. 10 * n + (of_char c - 48)) n ds, None)
      else (maxUint64, Some ErrRange))"
proof (induction ds arbitrary: n)
  case Nil then show ?case by simp
next
  case (Cons c cs)
  let ?f = "\<lambda>n c. 10 * n + ((of_char c :: nat) - 48)"
  define d where "d = (of_char c :: nat) - 48"
  from Cons.prems have dig: "isDigit c" and rest: "list_all isDigit cs" by simp_all
  have d9: "d \<le> 9" using dig unfolding isDigit_def d_def by arith
  have ge: "10 * n + d \<le> foldl ?f (10 * n + d) cs" by (rule decimal_fold_mono)
  show ?case
  proof (cases "n \<ge> maxUint64 div 10 + 1")
    case True
    then have "10 * n + d \<ge> 2 ^ 64" by (simp add: maxUint64_def)
    with ge have "\<not> foldl ?f (10 * n + d) cs < 2 ^ 64" by linarith
    with True dig show ?thesis by (simp add: d_def)
  next
    case False
    then have n10: "n * 10 < 2 ^ 64" by (simp add: maxUint64_def)
    show ?thesis
    proof (cases "n * 10 + d < 2 ^ 64")
      case True
      then have m: "(n * 10 + d) mod 2 ^ 64 = n * 10 + d" by simp
      have le: "n * 10 + d \<le> maxUint64" using True by (simp add: maxUint64_def)
      have "ParseUint_loop n (c # cs) = ParseUint_loop (n * 10 + d) cs"
        using dig False n10 m le by (simp add: d_def Let_def)
      also have "\<dots> = (if foldl ?f (n * 10 + d) cs < 2 ^ 64
          then (foldl ?f (n * 10 + d) cs, None) else (maxUint64, Some ErrRange))"
        using Cons.IH [OF rest True] .
      finally show ?thesis by (simp add: d_def mult.commute)
    next
      case False2: False
      then have big: "\<not> foldl ?f (10 * n + d) cs < 2 ^ 64" using ge by (simp add: mult.commute)
      have "n * 10 + d < 2 * 2 ^ 64" using n10 d9 by simp
      then have "(n * 10 + d) mod 2 ^ 64 = n * 10 + d - 2 ^ 64"
        using False2 by (simp add: mod_if)
      then have lt: "(n * 10 + d) mod 2 ^ 64 < n * 10" using d9 False2 by simp
      show ?thesis using dig False n10 lt big by (simp add: d_def Let_def)
    qed
  qed
qed

lemma ParseUint_loop_nondigit:
  "\<not> list_all isDigit ds \<Longrightarrow> snd (ParseUint_loop n ds) \<noteq> None"
  by (induction ds arbitrary: n) (auto simp: Let_def)


lemma ParseUint_loop_range:
  "ParseUint_loop n ds = (u, Some ErrRange) \<Longrightarrow> u = maxUint64"
  by (induction ds arbitrary: n) (auto simp: Let_def split: if_splits)

lemma ParseUint_digits:
  assumes "ds \<noteq> []" "list_all isDigit ds"
  shows "ParseUint ds =
     (if decimal_value ds < 2 ^ 64 then (decimal_value ds, None) else (maxUint64, Some ErrRange))"
  using assms ParseUint_loop_digits [of ds 0]
  by (simp add: ParseUint_def decimal_value_def)

lemma ParseUint_bad:
  assumes "ds = [] \<or> \<not> list_all isDigit ds"
  shows "snd (ParseUint ds) = Some ErrSyntax \<or> ParseUint ds = (maxUint64, Some ErrRange)"
proof (cases "ds = []")
  case True then show ?thesis by (simp add: ParseUint_def)
next
  case False
  with assms have nd: "\<not> list_all isDigit ds" by simp
  obtain u e where r: "ParseUint_loop 0 ds = (u, e)" by (cases "ParseUint_loop 0 ds")
  from ParseUint_loop_nondigit [OF nd, of 0] r obtain k where e: "e = Some k" by auto
  show ?thesis
  proof (cases k)
    case ErrSyntax with r e False show ?thesis by (simp add: ParseUint_def)
  next
    case ErrRange
    with r e ParseUint_loop_range [of 0 ds u] have "u = maxUint64" by simp
    with r e ErrRange False show ?thesis by (simp add: ParseUint_def)
  qed
qed

lemma ParseInt_aux:
  "ParseInt (c # r) =
     (let neg = (c = CHR ''-'');
          ds = (if c = CHR ''+'' \<or> c = CHR ''-'' then r else c # r)
      in if ds \<noteq> [] \<and> list_all isDigit ds \<and>
            (if neg then decimal_value ds \<le> 2 ^ 63 else decimal_value ds < 2 ^ 63)
         then (if neg then - int (decimal_value ds) else int (decimal_value ds), None)
         else (fst (ParseInt (c # r)), Some (NumError ''ParseInt'' (c # r)
                 (if ds \<noteq> [] \<and> list_all isDigit ds \<or> ParseUint ds = (maxUint64, Some ErrRange) then ErrRange else ErrSyntax))))"
proof -
  define ds where "ds = (if c = CHR ''+'' \<or> c = CHR ''-'' then r else c # r)"
  show ?thesis
  proof (cases "ds \<noteq> [] \<and> list_all isDigit ds")
    case True
    then have pu: "ParseUint ds =
     (if decimal_value ds < 2 ^ 64 then (decimal_value ds, None) else (maxUint64, Some ErrRange))"
      using ParseUint_digits by simp
    show ?thesis
    proof (cases "decimal_value ds < 2 ^ 64")
      case lt: True
      with pu True show ?thesis
        unfolding ParseInt_def Let_def ds_def [symmetric] by (auto simp: ds_def [symmetric])
    next
      case ge: False
      with pu True show ?thesis
        unfolding ParseInt_def Let_def ds_def [symmetric] by (auto simp: ds_def [symmetric] maxUint64_def)
    qed
  next
    case False
    then have "snd (ParseUint ds) = Some ErrSyntax \<or> ParseUint ds = (maxUint64, Some ErrRange)"
      using ParseUint_bad [of ds] by blast
    then show ?thesis
    proof
      assume a: "snd (ParseUint ds) = Some ErrSyntax"
      then obtain u where "ParseUint ds = (u, Some ErrSyntax)" by (cases "ParseUint ds") simp
      with False show ?thesis
        unfolding ParseInt_def Let_def ds_def [symmetric] by (auto simp: ds_def [symmetric])
    next
      assume a: "ParseUint ds = (maxUint64, Some ErrRange)"
      with False show ?thesis
        unfolding ParseInt_def Let_def ds_def [symmetric] by (auto simp: ds_def [symmetric] maxUint64_def)
    qed
  qed
qed

lemma ParseInt_ok_iff:
  "ParseInt s = (v, None) \<longleftrightarrow> int_literal s = Some v \<and> - (2 ^ 63) \<le> v \<and> v < 2 ^ 63"
proof (cases s)
  case Nil then show ?thesis by (simp add: ParseInt_def int_literal_def)
next
  case (Cons c r)
  show ?thesis unfolding Cons
    by (subst ParseInt_aux) (auto simp: int_literal_def Let_def)
qed

lemma ParseInt_err_iff:
  "snd (ParseInt s) \<noteq> None \<longleftrightarrow> (\<forall>v. int_literal s = Some v \<longrightarrow> v < - (2 ^ 63) \<or> 2 ^ 63 \<le> v)"
proof (cases s)
  case Nil then show ?thesis by (simp add: ParseInt_def int_literal_def)
next
  case (Cons c r)
  show ?thesis unfolding Cons
    by (subst ParseInt_aux) (auto simp: int_literal_def Let_def)
qed

text \<open>
  C10. When the destination type is uint64, fixDecodeProto maps a json.Number input to an
  error if it is negative or not representable as a 64-bit integer, and to the
  corresponding uint64 value otherwise; any input that is not a json.Number is returned
  unchanged with a nil error. A text is representable when it is an integer literal
  (\<open>int_literal\<close>) whose value lies in the signed 64-bit range; a text with a fraction
  or an exponent is not an integer literal and is an error as well.
\<close>

theorem fixDecodeProto_uint64:
  "(snd (fixDecodeProto ev src TUint64 (VNumber n)) \<noteq> None
      \<longleftrightarrow> (\<forall>v. int_literal n = Some v \<longrightarrow> v < 0 \<or> 2 ^ 63 \<le> v))
   \<and> (\<forall>v. int_literal n = Some v \<and> 0 \<le> v \<and> v < 2 ^ 63 \<longrightarrow>
         fixDecodeProto ev src TUint64 (VNumber n) = (VUint64 (word_of_int v), None)
         \<and> uint (word_of_int v :: 64 word) = v)
   \<and> ((\<forall>m. data \<noteq> VNumber m) \<longrightarrow> fixDecodeProto ev src TUint64 data = (data, None))"
proof (intro conjI allI impI)
  obtain v e where r: "ParseInt n = (v, e)" by (cases "ParseInt n")
  show "snd (fixDecodeProto ev src TUint64 (VNumber n)) \<noteq> None
      \<longleftrightarrow> (\<forall>v. int_literal n = Some v \<longrightarrow> v < 0 \<or> 2 ^ 63 \<le> v)"
  proof (cases e)
    case None
    with r ParseInt_ok_iff [of n v] have "int_literal n = Some v" "v < 2 ^ 63" by simp_all
    with r None show ?thesis by (auto simp: fixDecodeProto_def Int64_def)
  next
    case (Some err)
    with r ParseInt_err_iff [of n] have "\<forall>v. int_literal n = Some v \<longrightarrow> v < - (2 ^ 63) \<or> 2 ^ 63 \<le> v"
      by simp
    then have "\<forall>v. int_literal n = Some v \<longrightarrow> v < 0 \<or> 2 ^ 63 \<le> v" by fastforce
    with r Some show ?thesis by (simp add: fixDecodeProto_def Int64_def)
  qed
next
  fix v assume a: "int_literal n = Some v \<and> 0 \<le> v \<and> v < 2 ^ 63"
  then have "ParseInt n = (v, None)" using ParseInt_ok_iff [of n v] by simp
  with a show "fixDecodeProto ev src TUint64 (VNumber n) = (VUint64 (word_of_int v), None)"
    by (simp add: fixDecodeProto_def Int64_def)
  from a show "uint (word_of_int v :: 64 word) = v"
    by (simp add: uint_word_of_int take_bit_int_eq_self)
next
  assume "\<forall>m. data \<noteq> VNumber m"
  then show "fixDecodeProto ev src TUint64 data = (data, None)"
    by (cases data) (simp_all add: fixDecodeProto_def)
qed

theorem fixDecodeProto_uint64_witness:
  "fixDecodeProto (\<lambda>t. Map.empty) (TOther []) TUint64 (VNumber ''42'') = (VUint64 42, None)
   \<and> snd (fixDecodeProto (\<lambda>t. Map.empty) (TOther []) TUint64 (VNumber ''-1'')) \<noteq> None
   \<and> snd (fixDecodeProto (\<lambda>t. Map.empty) (TOther []) TUint64 (VNumber ''9223372036854775808'')) \<noteq> None
   \<and> fixDecodeProto (\<lambda>t. Map.empty) (TOther []) TUint64 (VString ''42'') = (VString ''42'', None)"
proof -
  have l1: "int_literal ''42'' = Some 42"
    by (simp add: int_literal_def decimal_value_def isDigit_def)
  have l2: "int_literal ''-1'' = Some (- 1)"
    by (simp add: int_literal_def decimal_value_def isDigit_def)
  have l3: "int_literal ''9223372036854775808'' = Some 9223372036854775808"
    by (simp add: int_literal_def decimal_value_def isDigit_def)
  show ?thesis
    using fixDecodeProto_uint64 [of "\<lambda>t. Map.empty" "TOther []" "''42''" "VString ''42''"]
          fixDecodeProto_uint64 [of "\<lambda>t. Map.empty" "TOther []" "''-1''" "VNil"]
          fixDecodeProto_uint64 [of "\<lambda>t. Map.empty" "TOther []" "''9223372036854775808''" "VNil"]
    by (simp add: l1 l2 l3)
qed

section \<open>Properties of package dht\<close>

subsection \<open>Hex keys\<close>

lemma fromHexChar_hextable:
  "m < 16 \<Longrightarrow> fromHexChar (hextable ! m) = Some m"
proof -
  assume "m < 16"
  then have "m \<in> {0, 1, 2, 3, 4, 5, 6, 7, 8, 9, 10, 11, 12, 13, 14, 15}" by simp arith
  then show ?thesis
    by (auto simp: hextable_def fromHexChar_def)
qed

lemma DecodeString_EncodeToString: "DecodeString (EncodeToString k) = Inr k"
proof (induction k)
  case Nil show ?case by simp
next
  case (Cons v vs)
  have hi: "(of_char v :: nat) div 16 < 16"
    using of_char_mod_256 [where ?'a = nat, of v]
    by (metis div_less_iff_less_mult mod_less_divisor numeral_times_numeral semiring_norm(12,13) zero_less_numeral mult.commute)
  have lo: "(of_char v :: nat) mod 16 < 16" by simp
  have "char_of ((of_char v :: nat) div 16 * 16 + of_char v mod 16) = v" by simp
  with Cons hi lo show ?case by (simp add: fromHexChar_hextable)
qed

lemma length_EncodeToString: "length (EncodeToString k) = 2 * length k"
  by (induction k) simp_all

lemma DecodeString_invalid:
  "even (length s) \<Longrightarrow> \<not> list_all (\<lambda>c. fromHexChar c \<noteq> None) s \<Longrightarrow>
     \<exists>c. c \<in> set s \<and> fromHexChar c = None \<and> DecodeString s = Inl (InvalidByteError c)"
proof (induction s rule: DecodeString.induct)
  case (1 p q rest)
  show ?case
  proof (cases "fromHexChar p")
    case None then show ?thesis by auto
  next
    case a: (Some a)
    show ?thesis
    proof (cases "fromHexChar q")
      case None with a show ?thesis by auto
    next
      case b: (Some b)
      with a "1.prems" have "even (length rest)" "\<not> list_all (\<lambda>c. fromHexChar c \<noteq> None) rest"
        by simp_all
      from "1.IH" [OF a b this] obtain c where
        "c \<in> set rest" "fromHexChar c = None" "DecodeString rest = Inl (InvalidByteError c)" by blast
      with a b show ?thesis by auto
    qed
  qed
next
  case (2 c) then show ?case by simp
next
  case 3 then show ?case by simp
qed

lemma fromHexChar_digits:
  "fromHexChar c \<noteq> None \<longleftrightarrow> c \<in> set ''0123456789abcdefABCDEF''"
proof
  assume "fromHexChar c \<noteq> None"
  then have "(of_char c :: nat) \<in> {48, 49, 50, 51, 52, 53, 54, 55, 56, 57, 97, 98, 99, 100, 101, 102, 65, 66, 67, 68, 69, 70}"
    unfolding fromHexChar_def Let_def by (simp split: if_splits) arith+
  then have "(of_char c :: nat) \<in> of_char ` set ''0123456789abcdefABCDEF''" by simp
  then show "c \<in> set ''0123456789abcdefABCDEF''"
    by (simp only: inj_image_mem_iff [OF inj_of_char])
next
  assume "c \<in> set ''0123456789abcdefABCDEF''"
  then show "fromHexChar c \<noteq> None" by (auto simp: fromHexChar_def)
qed

subsection \<open>FindNode\<close>

lemma FindNode_poll_spec:
  "i < 30 \<Longrightarrow>
   \<exists>m. i < m \<and> m \<le> 30
     \<and> FindNode_poll env key k i
         = (GetPeers env m key k, concat (replicate (m - i) [RecvTick, CallGetPeers key k]))
     \<and> (\<forall>j. i < j \<and> j < m \<longrightarrow> GetPeers env j key k = [])
     \<and> (GetPeers env m key k \<noteq> [] \<or> m = 30)"
proof (induction env key k i rule: FindNode_poll.induct)
  case (1 env key k i)
  show ?case
  proof (cases "GetPeers env (i + 1) key k \<noteq> [] \<or> i + 1 \<ge> 30")
    case True
    have "FindNode_poll env key k i = (GetPeers env (i + 1) key k, [RecvTick, CallGetPeers key k])"
      using True by (subst FindNode_poll.simps) simp
    moreover have "GetPeers env (i + 1) key k \<noteq> [] \<or> i + 1 = 30" using True "1.prems" by auto
    ultimately show ?thesis using "1.prems"
      by (intro exI [of _ "i + 1"]) auto
  next
    case False
    then have lt: "i + 1 < 30" and empty: "GetPeers env (i + 1) key k = []" by auto
    from "1.IH" [OF False lt] obtain m where m: "i + 1 < m" "m \<le> 30"
      "FindNode_poll env key k (i + 1)
         = (GetPeers env m key k, concat (replicate (m - (i + 1)) [RecvTick, CallGetPeers key k]))"
      "\<forall>j. i + 1 < j \<and> j < m \<longrightarrow> GetPeers env j key k = []"
      "GetPeers env m key k \<noteq> [] \<or> m = 30" by blast
    have rep: "m - i = Suc (m - (i + 1))" using m(1) by simp
    have "FindNode_poll env key k i
            = (GetPeers env m key k, RecvTick # CallGetPeers key k
                 # concat (replicate (m - (i + 1)) [RecvTick, CallGetPeers key k]))"
      using False m(3) by (subst FindNode_poll.simps) simp
    then have eq: "FindNode_poll env key k i
            = (GetPeers env m key k, concat (replicate (m - i) [RecvTick, CallGetPeers key k]))"
      by (simp add: rep)
    have "\<forall>j. i < j \<and> j < m \<longrightarrow> GetPeers env j key k = []"
    proof (intro allI impI)
      fix j assume "i < j \<and> j < m"
      then have "j = i + 1 \<or> (i + 1 < j \<and> j < m)" by auto
      with empty m(4) show "GetPeers env j key k = []" by auto
    qed
    with m eq show ?thesis by (intro exI [of _ m]) auto
  qed
qed

lemma FindNode_hex_of_raw:
  assumes "Ready dht" "length k = n" "0 < n"
  shows "FindNode n env dht (EncodeToString k)
           = (fst (FindNode n env dht k),
              CallDecodeString (EncodeToString k) # snd (FindNode n env dht k))"
proof -
  have l: "length (EncodeToString k) = n * 2" "length k \<noteq> n * 2"
    using assms by (simp_all add: length_EncodeToString)
  show ?thesis
    using assms(1) l
    by (simp add: FindNode_def DecodeString_EncodeToString Let_def split: prod.splits)
qed

text \<open>
  C1. For every key, if FindNode is called while the Ready flag is false, it returns the
  "not ready" error at once: the trace is empty, so no tick was waited for, the key was
  not hex-decoded, and neither the peers manager nor the routing table was asked.
\<close>

theorem FindNode_not_ready:
  "\<not> Ready dht \<Longrightarrow> FindNode n env dht key = (([], Some ErrNotReady), [])"
  by (simp add: FindNode_def)

theorem FindNode_not_ready_witness:
  "\<not> Ready (example_dht False)
   \<and> FindNode 20 (example_env 0) (example_dht False) ''abc'' = (([], Some ErrNotReady), [])"
  using FindNode_not_ready [of "example_dht False" 20 "example_env 0" "''abc''"]
  by (simp add: example_dht_def)

text \<open>
  A key of forty bytes that are not hex digits, given to a node that is not ready: the
  answer is the "not ready" error, not the decoding error.
\<close>

theorem FindNode_decode_error_counterexample:
  "length ''zzzzzzzzzzzzzzzzzzzzzzzzzzzzzzzzzzzzzzzz'' = 20 * 2
   \<and> DecodeString ''zzzzzzzzzzzzzzzzzzzzzzzzzzzzzzzzzzzzzzzz'' = Inl (InvalidByteError CHR ''z'')
   \<and> FindNode 20 (example_env 0) (example_dht False) ''zzzzzzzzzzzzzzzzzzzzzzzzzzzzzzzzzzzzzzzz''
       = (([], Some ErrNotReady), [])"
  by (simp add: FindNode_def example_dht_def fromHexChar_def)

text \<open>
  C2, as amended. For every raw key \<open>k\<close> of the identifier length, FindNode with the hex
  encoding of \<open>k\<close> returns what FindNode with \<open>k\<close> returns and makes the same calls, after
  the one decoding. For every string of twice the identifier length that is not valid
  hex, FindNode called when the node is ready returns the decoding error to the caller
  and makes no call but the decoding. Before readiness the answer is "not ready" for
  every key.
\<close>

theorem FindNode_key_forms:
  "(length k = n \<longrightarrow>
      fst (FindNode n env dht (EncodeToString k)) = fst (FindNode n env dht k)
    \<and> snd (FindNode n env dht (EncodeToString k))
        = (if Ready dht \<and> 0 < n then [CallDecodeString (EncodeToString k)] else [])
            @ snd (FindNode n env dht k))
   \<and> (Ready dht \<and> length s = n * 2 \<and> \<not> list_all (\<lambda>c. c \<in> set ''0123456789abcdefABCDEF'') s \<longrightarrow>
        (\<exists>c. c \<in> set s \<and> c \<notin> set ''0123456789abcdefABCDEF''
           \<and> DecodeString s = Inl (InvalidByteError c)
           \<and> FindNode n env dht s = (([], Some (ErrHex (InvalidByteError c))), [CallDecodeString s])))"
proof (intro conjI impI)
  assume len: "length k = n"
  show "fst (FindNode n env dht (EncodeToString k)) = fst (FindNode n env dht k)"
  proof (cases "Ready dht \<and> 0 < n")
    case True
    with len FindNode_hex_of_raw [of dht k n env] show ?thesis by simp
  next
    case False
    with len show ?thesis by (auto simp: FindNode_def)
  qed
  show "snd (FindNode n env dht (EncodeToString k))
        = (if Ready dht \<and> 0 < n then [CallDecodeString (EncodeToString k)] else [])
            @ snd (FindNode n env dht k)"
  proof (cases "Ready dht \<and> 0 < n")
    case True
    with len FindNode_hex_of_raw [of dht k n env] show ?thesis by simp
  next
    case False
    with len show ?thesis by (auto simp: FindNode_def)
  qed
next
  assume a: "Ready dht \<and> length s = n * 2 \<and> \<not> list_all (\<lambda>c. c \<in> set ''0123456789abcdefABCDEF'') s"
  then have "even (length s)" by simp
  moreover from a have "\<not> list_all (\<lambda>c. fromHexChar c \<noteq> None) s"
    by (simp only: fromHexChar_digits) simp
  ultimately obtain c where c: "c \<in> set s" "fromHexChar c = None"
      "DecodeString s = Inl (InvalidByteError c)"
    using DecodeString_invalid by blast
  from c(2) have "c \<notin> set ''0123456789abcdefABCDEF''"
    using fromHexChar_digits [of c] by blast
  moreover from a c(3)
  have "FindNode n env dht s = (([], Some (ErrHex (InvalidByteError c))), [CallDecodeString s])"
    by (simp add: FindNode_def)
  ultimately show "\<exists>c. c \<in> set s \<and> c \<notin> set ''0123456789abcdefABCDEF''
           \<and> DecodeString s = Inl (InvalidByteError c)
           \<and> FindNode n env dht s = (([], Some (ErrHex (InvalidByteError c))), [CallDecodeString s])"
    using c(1,3) by blast
qed

theorem FindNode_key_forms_witness:
  "length ''AB'' = 2
   \<and> EncodeToString ''AB'' = ''4142''
   \<and> FindNode 2 (example_env 0) (example_dht True) ''4142''
       = (([Peer ''10.0.0.9'' 3333], None), [CallDecodeString ''4142'', CallGetPeers ''AB'' 8])
   \<and> FindNode 2 (example_env 0) (example_dht True) ''AB''
       = (([Peer ''10.0.0.9'' 3333], None), [CallGetPeers ''AB'' 8])
   \<and> Ready (example_dht True) \<and> length ''41zz'' = 2 * 2
   \<and> FindNode 2 (example_env 0) (example_dht True) ''41zz''
       = (([], Some (ErrHex (InvalidByteError CHR ''z''))), [CallDecodeString ''41zz''])"
proof -
  have raw: "FindNode 2 (example_env 0) (example_dht True) ''AB''
       = (([Peer ''10.0.0.9'' 3333], None), [CallGetPeers ''AB'' 8])"
    by (simp add: FindNode_def example_dht_def example_env_def NewStandardConfig_def)
  have enc: "EncodeToString ''AB'' = ''4142''"
    by (simp add: hextable_def)
  have dec: "DecodeString ''41zz'' = Inl (InvalidByteError CHR ''z'')"
    by (simp add: fromHexChar_def)
  have rdy: "Ready (example_dht True)" by (simp add: example_dht_def)
  from FindNode_key_forms [of "''AB''" 2 "example_env 0" "example_dht True" "''41zz''"]
  show ?thesis
    using raw enc dec rdy
    by (cases "FindNode 2 (example_env 0) (example_dht True) ''4142''") auto
qed

text \<open>
  C3. For every key for which the peers manager already holds at least one peer, FindNode
  called when ready returns those peers at once with a nil error: the trace holds the
  one look into the peers manager (after the decoding of a hex key), no find_node
  query, no look into the routing table and no tick. The key is given raw or in hex.
\<close>

theorem FindNode_stored_peers:
  assumes "Ready dht"
    and "length key0 \<noteq> n * 2 \<and> key = key0 \<or> length key0 = n * 2 \<and> DecodeString key0 = Inr key"
    and "GetPeers env 0 key (K (Config dht)) \<noteq> []"
  shows "FindNode n env dht key0 =
           ((GetPeers env 0 key (K (Config dht)), None),
            (if length key0 = n * 2 then [CallDecodeString key0] else [])
              @ [CallGetPeers key (K (Config dht))])"
  using assms by (auto simp: FindNode_def Let_def)

theorem FindNode_stored_peers_witness:
  "Ready (example_dht True)
   \<and> GetPeers (example_env 0) 0 ''0123456789abcdefghij'' (K (Config (example_dht True))) \<noteq> []
   \<and> FindNode 20 (example_env 0) (example_dht True) ''0123456789abcdefghij''
       = (([Peer ''10.0.0.9'' 3333], None), [CallGetPeers ''0123456789abcdefghij'' 8])"
  using FindNode_stored_peers [of "example_dht True" "''0123456789abcdefghij''" 20
          "''0123456789abcdefghij''" "example_env 0"]
  by (simp add: example_dht_def example_env_def NewStandardConfig_def)

text \<open>
  C4. For every key with no stored peers, FindNode called when ready with a well-formed
  key makes \<open>m\<close> polls, between 1 and 30, each after one tick of the one-second ticker;
  every poll before the \<open>m\<close>-th found nothing; the \<open>m\<close>-th found peers or was the 30th;
  the result is what the \<open>m\<close>-th poll found, empty or not, with a nil error.
\<close>

theorem FindNode_polls:
  assumes "Ready dht"
    and "length key0 \<noteq> n * 2 \<and> key = key0 \<or> length key0 = n * 2 \<and> DecodeString key0 = Inr key"
    and "GetPeers env 0 key (K (Config dht)) = []"
  shows "\<exists>m. 1 \<le> m \<and> m \<le> 30
     \<and> fst (FindNode n env dht key0) = (GetPeers env m key (K (Config dht)), None)
     \<and> (\<forall>j. 1 \<le> j \<and> j < m \<longrightarrow> GetPeers env j key (K (Config dht)) = [])
     \<and> (GetPeers env m key (K (Config dht)) \<noteq> [] \<or> m = 30)
     \<and> snd (FindNode n env dht key0) =
          (if length key0 = n * 2 then [CallDecodeString key0] else [])
            @ [CallGetPeers key (K (Config dht)), CallGetNeighbors key (K (Config dht))]
            @ map (\<lambda>no. CallFindNode no key) (GetNeighbors env key (K (Config dht)))
            @ concat (replicate m [RecvTick, CallGetPeers key (K (Config dht))])"
proof -
  from FindNode_poll_spec [of 0 env key "K (Config dht)"] obtain m where m:
    "0 < m" "m \<le> 30"
    "FindNode_poll env key (K (Config dht)) 0
       = (GetPeers env m key (K (Config dht)),
          concat (replicate (m - 0) [RecvTick, CallGetPeers key (K (Config dht))]))"
    "\<forall>j. 0 < j \<and> j < m \<longrightarrow> GetPeers env j key (K (Config dht)) = []"
    "GetPeers env m key (K (Config dht)) \<noteq> [] \<or> m = 30" by auto
  have r: "FindNode n env dht key0 =
      ((GetPeers env m key (K (Config dht)), None),
       (if length key0 = n * 2 then [CallDecodeString key0] else [])
            @ [CallGetPeers key (K (Config dht)), CallGetNeighbors key (K (Config dht))]
            @ map (\<lambda>no. CallFindNode no key) (GetNeighbors env key (K (Config dht)))
            @ concat (replicate m [RecvTick, CallGetPeers key (K (Config dht))]))"
    using assms m(3) by (auto simp: FindNode_def Let_def)
  show ?thesis
    using m(1,2,4,5) by (intro exI [of _ m]) (simp add: r)
qed

theorem FindNode_polls_witness:
  "Ready (example_dht True)
   \<and> GetPeers (example_env 3) 0 ''0123456789abcdefghij'' (K (Config (example_dht True))) = []
   \<and> (\<exists>m. 1 \<le> m \<and> m \<le> 30
        \<and> fst (FindNode 20 (example_env 3) (example_dht True) ''0123456789abcdefghij'')
            = (GetPeers (example_env 3) m ''0123456789abcdefghij'' 8, None))"
  using FindNode_polls [of "example_dht True" "''0123456789abcdefghij''" 20
          "''0123456789abcdefghij''" "example_env 3"]
  by (auto simp: example_dht_def example_env_def NewStandardConfig_def)

subsection \<open>join\<close>

lemma join_loop_trace:
  assumes "node_id (node dht) = Some own"
  shows "join_loop env dht as =
     Inr (concat (map (\<lambda>a.
            case ResolveUDPAddr env (Network (Config dht)) a of
              Inl err \<Rightarrow> [CallResolveUDPAddr (Network (Config dht)) a]
            | Inr ra \<Rightarrow> [CallResolveUDPAddr (Network (Config dht)) a,
                         CallFindNode \<lparr> node_id = None, node_addr = ra \<rparr> own]) as))"
  using assms by (induction as) (simp_all split: sum.splits)

lemma join_loop_unresolved:
  assumes "\<forall>a \<in> set as. isl (ResolveUDPAddr env (Network (Config dht)) a)"
  shows "join_loop env dht as = Inr (map (CallResolveUDPAddr (Network (Config dht))) as)"
  using assms by (induction as) (auto split: sum.splits)

lemma join_loop_no_refresh:
  "join_loop env dht as = Inr evs \<Longrightarrow> GoFresh \<notin> set evs"
  by (induction as arbitrary: evs) (auto split: sum.splits option.splits)

text \<open>
  C5. For every list of prime-node addresses, join resolves each address in turn; for
  each one that resolves it issues one find_node query for the local node's own
  identifier through a temporary node that has the resolved address and no
  identifier; an address that does not resolve is skipped, and the loop goes on to the
  next. When no address resolves, join still completes without error, having issued no
  query. (The first part reads the local node's identifier, which \<open>New\<close> sets.)
\<close>

theorem join_queries:
  "(node_id (node dht) = Some own \<longrightarrow>
      join env dht =
        Inr (concat (map (\<lambda>a.
               case ResolveUDPAddr env (Network (Config dht)) a of
                 Inl err \<Rightarrow> [CallResolveUDPAddr (Network (Config dht)) a]
               | Inr ra \<Rightarrow> [CallResolveUDPAddr (Network (Config dht)) a,
                            CallFindNode \<lparr> node_id = None, node_addr = ra \<rparr> own])
             (PrimeNodes (Config dht)))))
   \<and> ((\<forall>a \<in> set (PrimeNodes (Config dht)). isl (ResolveUDPAddr env (Network (Config dht)) a)) \<longrightarrow>
      join env dht
        = Inr (map (CallResolveUDPAddr (Network (Config dht))) (PrimeNodes (Config dht))))"
  by (simp add: join_def join_loop_trace join_loop_unresolved)

theorem join_queries_witness:
  "node_id (node (example_dht True)) = Some ''local-node-id-20byte''
   \<and> join (example_env 0) (example_dht True) =
       Inr [CallResolveUDPAddr ''udp4'' ''lbrynet1.lbry.io:4444'',
            CallFindNode \<lparr> node_id = None, node_addr = UDPAddr ''10.0.0.1'' 4444 \<rparr>
              ''local-node-id-20byte'',
            CallResolveUDPAddr ''udp4'' ''lbrynet2.lbry.io:4444'',
            CallResolveUDPAddr ''udp4'' ''lbrynet3.lbry.io:4444'']
   \<and> join ((example_env 0) \<lparr> ResolveUDPAddr := \<lambda>network a. Inl ''no such host'' \<rparr>) (example_dht True) =
       Inr [CallResolveUDPAddr ''udp4'' ''lbrynet1.lbry.io:4444'',
            CallResolveUDPAddr ''udp4'' ''lbrynet2.lbry.io:4444'',
            CallResolveUDPAddr ''udp4'' ''lbrynet3.lbry.io:4444'']"
  using join_queries [of "example_dht True" "''local-node-id-20byte''" "example_env 0"]
        join_queries [of "example_dht True" "''local-node-id-20byte''"
                         "(example_env 0) \<lparr> ResolveUDPAddr := \<lambda>network a. Inl ''no such host'' \<rparr>"]
  by (simp add: example_dht_def example_env_def NewStandardConfig_def)

subsection \<open>The maintenance tick\<close>

text \<open>
  C6. On a tick of the maintenance timer in the loop of Run: if the routing table is empty,
  join is run (and no refresh is started); otherwise a refresh of the buckets is
  started asynchronously if and only if no transaction is outstanding; with a
  non-empty routing table and outstanding transactions the tick does nothing.
\<close>

theorem Run_step_tick:
  "(rtLen = 0 \<longrightarrow>
      Run_step env dht rtLen tmLen TickFired = join env dht
      \<and> (\<forall>evs. Run_step env dht rtLen tmLen TickFired = Inr evs \<longrightarrow> GoFresh \<notin> set evs))
   \<and> (rtLen \<noteq> 0 \<and> tmLen = 0 \<longrightarrow> Run_step env dht rtLen tmLen TickFired = Inr [GoFresh])
   \<and> (rtLen \<noteq> 0 \<and> tmLen \<noteq> 0 \<longrightarrow> Run_step env dht rtLen tmLen TickFired = Inr [])"
  by (auto simp: Run_step_def join_def dest: join_loop_no_refresh)

theorem Run_step_tick_witness:
  "Run_step (example_env 0) (example_dht True) 0 0 TickFired = join (example_env 0) (example_dht True)
   \<and> Run_step (example_env 0) (example_dht True) 5 0 TickFired = Inr [GoFresh]
   \<and> Run_step (example_env 0) (example_dht True) 5 2 TickFired = Inr []"
  using Run_step_tick [of 0 "example_env 0" "example_dht True" 0]
        Run_step_tick [of 5 "example_env 0" "example_dht True" 0]
        Run_step_tick [of 5 "example_env 0" "example_dht True" 2]
  by simp

subsection \<open>Construction\<close>

lemma make_chan_iff:
  "make_chan rt elemSize sz = Inr ch
     \<longleftrightarrow> fits rt elemSize sz \<and> ch = \<lparr> cap = nat sz, buf = [] \<rparr>"
  by (auto simp: make_chan_def fits_def Let_def)

lemma make_chan_fits:
  "fits rt elemSize sz \<Longrightarrow> make_chan rt elemSize sz = Inr \<lparr> cap = nat sz, buf = [] \<rparr>"
  by (simp add: make_chan_iff)

lemma make_chan_panics:
  "\<not> fits rt elemSize sz \<Longrightarrow> make_chan rt elemSize sz = Inl PanicMakeChan"
  by (auto simp: make_chan_def fits_def Let_def)

text \<open>
  C7. New with a nil configuration builds the node on the standard configuration, whose
  values are K = 8, network udp4, address ":4444", Try = 2, token expiry ten minutes (in
  nanoseconds), greatest transaction cursor \<open>2^32 - 1\<close>, packet job limit 1024 and packet
  worker limit 256; its packet queue has room for 1024 packets and its worker-token
  pool for 256 tokens. For every configuration, the node New returns has a packet
  queue of exactly the configured job limit and a worker-token pool of exactly the
  configured worker limit, both empty. New returns a node exactly when \<open>newNode\<close>
  succeeds and the runtime accepts both limits as channel sizes; otherwise it panics.
\<close>

theorem New_standard:
  "(newNode randomID ''udp4'' '':4444'' = Inr nd
      \<and> fits rt (sizeof_packet rt) 1024 \<and> fits rt 0 256 \<longrightarrow>
      New rt newNode randomID None =
        Inr \<lparr> Config = NewStandardConfig, node = nd, Ready = False,
              packets = \<lparr> cap = 1024, buf = [] \<rparr>,
              workerTokens = \<lparr> cap = 256, buf = [] \<rparr> \<rparr>)
   \<and> K NewStandardConfig = 8
   \<and> Network NewStandardConfig = ''udp4''
   \<and> Address NewStandardConfig = '':4444''
   \<and> Try NewStandardConfig = 2
   \<and> TokenExpiredAfter NewStandardConfig = 10 * (60 * 1000000000)
   \<and> MaxTransactionCursor NewStandardConfig = 2 ^ 32 - 1
   \<and> PacketJobLimit NewStandardConfig = 1024
   \<and> PacketWorkerLimit NewStandardConfig = 256
   \<and> (\<forall>d. New rt newNode randomID (Some c) = Inr d \<longrightarrow>
         Config d = c
         \<and> int (cap (packets d)) = PacketJobLimit c \<and> buf (packets d) = []
         \<and> int (cap (workerTokens d)) = PacketWorkerLimit c \<and> buf (workerTokens d) = [])
   \<and> ((\<exists>d. New rt newNode randomID (Some c) = Inr d)
        \<longleftrightarrow> (\<exists>n. newNode randomID (Network c) (Address c) = Inr n)
            \<and> fits rt (sizeof_packet rt) (PacketJobLimit c)
            \<and> fits rt 0 (PacketWorkerLimit c))"
proof -
  have std: "New rt newNode randomID None =
        Inr \<lparr> Config = NewStandardConfig, node = nd, Ready = False,
              packets = \<lparr> cap = 1024, buf = [] \<rparr>,
              workerTokens = \<lparr> cap = 256, buf = [] \<rparr> \<rparr>"
    if "newNode randomID ''udp4'' '':4444'' = Inr nd"
       "fits rt (sizeof_packet rt) 1024" "fits rt 0 256"
    using that by (simp add: New_def NewStandardConfig_def Let_def make_chan_fits)
  have fields: "K NewStandardConfig = 8" "Network NewStandardConfig = ''udp4''"
    "Address NewStandardConfig = '':4444''" "Try NewStandardConfig = 2"
    "TokenExpiredAfter NewStandardConfig = 10 * (60 * 1000000000)"
    "MaxTransactionCursor NewStandardConfig = 2 ^ 32 - 1"
    "PacketJobLimit NewStandardConfig = 1024" "PacketWorkerLimit NewStandardConfig = 256"
    by (simp_all add: NewStandardConfig_def Minute_def Second_def MaxUint32_def)
  have sized: "Config d = c
         \<and> int (cap (packets d)) = PacketJobLimit c \<and> buf (packets d) = []
         \<and> int (cap (workerTokens d)) = PacketWorkerLimit c \<and> buf (workerTokens d) = []"
    if "New rt newNode randomID (Some c) = Inr d" for d
    using that
    by (auto simp: New_def make_chan_iff fits_def split: sum.splits)
  have built: "(\<exists>d. New rt newNode randomID (Some c) = Inr d)
        \<longleftrightarrow> (\<exists>n. newNode randomID (Network c) (Address c) = Inr n)
            \<and> fits rt (sizeof_packet rt) (PacketJobLimit c)
            \<and> fits rt 0 (PacketWorkerLimit c)"
  proof
    assume "\<exists>d. New rt newNode randomID (Some c) = Inr d"
    then show "(\<exists>n. newNode randomID (Network c) (Address c) = Inr n)
            \<and> fits rt (sizeof_packet rt) (PacketJobLimit c)
            \<and> fits rt 0 (PacketWorkerLimit c)"
      by (auto simp: New_def make_chan_iff split: sum.splits)
  next
    assume a: "(\<exists>n. newNode randomID (Network c) (Address c) = Inr n)
            \<and> fits rt (sizeof_packet rt) (PacketJobLimit c)
            \<and> fits rt 0 (PacketWorkerLimit c)"
    then obtain n where "newNode randomID (Network c) (Address c) = Inr n" by blast
    with a show "\<exists>d. New rt newNode randomID (Some c) = Inr d"
      by (simp add: New_def make_chan_fits)
  qed
  show ?thesis using std fields sized built by blast
qed

theorem New_standard_witness:
  "fits example_runtime (sizeof_packet example_runtime) 1024
   \<and> fits example_runtime 0 256
   \<and> New example_runtime (\<lambda>i network a. Inr \<lparr> node_id = Some i, node_addr = UDPAddr a 0 \<rparr>) ''id'' None =
        Inr \<lparr> Config = NewStandardConfig,
              node = \<lparr> node_id = Some ''id'', node_addr = UDPAddr '':4444'' 0 \<rparr>, Ready = False,
              packets = \<lparr> cap = 1024, buf = [] \<rparr>,
              workerTokens = \<lparr> cap = 256, buf = [] \<rparr> \<rparr>
   \<and> (\<exists>d. New example_runtime (\<lambda>i network a. Inr \<lparr> node_id = Some i, node_addr = UDPAddr a 0 \<rparr>) ''id''
              (Some (NewStandardConfig \<lparr> PacketJobLimit := 7, PacketWorkerLimit := 3 \<rparr>)) = Inr d
          \<and> cap (packets d) = 7 \<and> cap (workerTokens d) = 3)
   \<and> isl (New example_runtime (\<lambda>i network a. Inr \<lparr> node_id = Some i, node_addr = UDPAddr a 0 \<rparr>) ''id''
              (Some (NewStandardConfig \<lparr> PacketJobLimit := 576460752303423488 \<rparr>)))"
proof -
  let ?nn = "\<lambda>i network a. Inr \<lparr> node_id = Some i, node_addr = UDPAddr a 0 \<rparr> :: string + node"
  let ?nd = "\<lparr> node_id = Some ''id'', node_addr = UDPAddr '':4444'' 0 \<rparr>"
  let ?c = "NewStandardConfig \<lparr> PacketJobLimit := 7, PacketWorkerLimit := 3 \<rparr>"
  let ?big = "NewStandardConfig \<lparr> PacketJobLimit := 576460752303423488 \<rparr>"
  have f1: "fits example_runtime (sizeof_packet example_runtime) 1024"
    and f2: "fits example_runtime 0 256"
    and f3: "fits example_runtime (sizeof_packet example_runtime) 7"
    and f4: "fits example_runtime 0 3"
    and f5: "\<not> fits example_runtime (sizeof_packet example_runtime) 576460752303423488"
    by (simp_all add: fits_def example_runtime_def)
  note t = New_standard [of ?nn "''id''" ?nd example_runtime ?c]
  from t f1 f2 have a: "New example_runtime ?nn ''id'' None =
        Inr \<lparr> Config = NewStandardConfig, node = ?nd, Ready = False,
              packets = \<lparr> cap = 1024, buf = [] \<rparr>,
              workerTokens = \<lparr> cap = 256, buf = [] \<rparr> \<rparr>" by simp
  from t f3 f4 obtain d where d: "New example_runtime ?nn ''id'' (Some ?c) = Inr d"
    by auto
  with t have "int (cap (packets d)) = 7 \<and> int (cap (workerTokens d)) = 3" by simp
  then have b: "cap (packets d) = 7 \<and> cap (workerTokens d) = 3" by simp
  from New_standard [of ?nn "''id''" ?nd example_runtime ?big] f5
  have "\<not> (\<exists>d. New example_runtime ?nn ''id'' (Some ?big) = Inr d)" by simp
  then have c: "isl (New example_runtime ?nn ''id'' (Some ?big))"
    by (cases "New example_runtime ?nn ''id'' (Some ?big)") auto
  from f1 f2 a d b c show ?thesis by blast
qed

subsection \<open>listen\<close>


text \<open>
  Two datagrams read one after the other: the packet sent for the first is the slice
  of the first three bytes of the buffer, and after the second read those bytes are
  no longer the first datagram's.
\<close>

lemma listen_queued_packet_overwritten:
  "slice_bytes
     (fst (listen 0 example_store
             [Datagram [1, 2, 3] (UDPAddr ''10.0.0.7'' 6881), Datagram [9, 9] (UDPAddr ''10.0.0.8'' 6881)]))
     \<lparr> slice_array = 0, slice_len = 3 \<rparr> = [9, 9, 3]"
  by (simp add: listen_def ReadFromUDP_def slice_bytes_def example_store_def)




end
